theory Spec2Isabelle
  imports Complex_Main "HOL-Library.AList"
begin

unbundle bit_operations_syntax

section \<open>JavaScript values\<close>

text \<open>
  A JavaScript number is a finite double (read as the real number it denotes, so that
  \<open>+0\<close> and \<open>-0\<close> are both \<open>Fin 0\<close>), an infinity or \<open>NaN\<close>.
\<close>

datatype number = Fin real | PInf | NInf | NaN

text \<open>
  The values \<open>JSON.parse\<close> produces, as they live in memory afterwards. An array carries
  its elements and the named properties assigned to it later; an object is its list of
  properties in insertion order. \<open>undefined\<close> is \<open>None\<close> of \<open>json option\<close>.
\<close>

datatype json =
    JNull
  | JBool bool
  | JNum number
  | JStr string
  | JArr "json list" "(string \<times> json) list"
  | JObj "(string \<times> json) list"

datatype exn = TypeError | SyntaxError | StorageError | PlatformError

text \<open>ToBoolean.\<close>

fun truthy :: "json \<Rightarrow> bool" where
  "truthy JNull = False"
| "truthy (JBool b) = b"
| "truthy (JNum n) = (n \<noteq> Fin 0 \<and> n \<noteq> NaN)"
| "truthy (JStr s) = (s \<noteq> [])"
| "truthy (JArr xs ps) = True"
| "truthy (JObj ps) = True"

fun truthy_opt :: "json option \<Rightarrow> bool" where
  "truthy_opt None = False"
| "truthy_opt (Some v) = truthy v"

text \<open>
  Reading a property \<open>v.k\<close>, for the property names this program reads (\<open>userId\<close>,
  \<open>width\<close>, ...; none of them is an index, \<open>length\<close> or a prototype member): \<open>null\<close>
  throws, a primitive has no such property.
\<close>

fun get_prop :: "json \<Rightarrow> string \<Rightarrow> exn + json option" where
  "get_prop JNull k = Inl TypeError"
| "get_prop (JObj ps) k = Inr (map_of ps k)"
| "get_prop (JArr xs ps) k = Inr (map_of ps k)"
| "get_prop v k = Inr None"

text \<open>
  Assigning a property \<open>v.k = x\<close> in strict mode (class bodies and modules are strict):
  on \<open>null\<close> and on a primitive it throws; on an object an existing property keeps its
  place and a new one is appended.
\<close>

fun set_prop :: "json \<Rightarrow> string \<Rightarrow> json \<Rightarrow> exn + json" where
  "set_prop (JObj ps) k x = Inr (JObj (AList.update k x ps))"
| "set_prop (JArr xs ps) k x = Inr (JArr xs (AList.update k x ps))"
| "set_prop v k x = Inl TypeError"

text \<open>The relational operators on numbers: every comparison with \<open>NaN\<close> is false.\<close>

fun num_lt :: "number \<Rightarrow> number \<Rightarrow> bool" where
  "num_lt NaN b = False"
| "num_lt a NaN = False"
| "num_lt (Fin a) (Fin b) = (a < b)"
| "num_lt (Fin a) PInf = True"
| "num_lt NInf (Fin b) = True"
| "num_lt NInf PInf = True"
| "num_lt a b = False"

definition num_gt :: "number \<Rightarrow> number \<Rightarrow> bool" where
  "num_gt a b = num_lt b a"

section \<open>The runtime the code calls into\<close>

text \<open>
  Library functions of the JavaScript runtime that the repository calls and does not
  define are parameters: \<open>JSON.parse\<close> (\<open>None\<close> when it throws a SyntaxError),
  \<open>JSON.stringify\<close>, ToNumber on a string, array or object, \<open>Date.prototype.toISOString\<close>
  of an epoch time, and \<open>Number.prototype.toString(36)\<close>.
\<close>

record runtime =
  JSON_parse :: "string \<Rightarrow> json option"
  JSON_stringify :: "json \<Rightarrow> string"
  ToNumber_ext :: "json \<Rightarrow> number"
  toISOString :: "nat \<Rightarrow> string"
  toString36 :: "real \<Rightarrow> string"

fun to_number :: "runtime \<Rightarrow> json option \<Rightarrow> number" where
  "to_number rt None = NaN"
| "to_number rt (Some JNull) = Fin 0"
| "to_number rt (Some (JBool b)) = Fin (if b then 1 else 0)"
| "to_number rt (Some (JNum n)) = n"
| "to_number rt (Some v) = ToNumber_ext rt v"

section \<open>localStorage\<close>

text \<open>
  A key-value store of strings. Every \<open>setItem\<close> and \<open>removeItem\<close> call is logged, also
  one that throws. The three flags say which operations of the backend throw.
\<close>

datatype storage_call = SetItem string string | RemoveItem string

record storage =
  items :: "string \<rightharpoonup> string"
  calls :: "storage_call list"
  get_throws :: bool
  set_throws :: bool
  remove_throws :: bool

definition getItem :: "storage \<Rightarrow> string \<Rightarrow> exn + string option" where
  "getItem s k = (if get_throws s then Inl StorageError else Inr (items s k))"

definition setItem :: "storage \<Rightarrow> string \<Rightarrow> string \<Rightarrow> (exn + unit) \<times> storage" where
  "setItem s k v =
     (let s' = s\<lparr>calls := calls s @ [SetItem k v]\<rparr>
      in if set_throws s then (Inl StorageError, s')
         else (Inr (), s'\<lparr>items := (items s)(k \<mapsto> v)\<rparr>))"

definition removeItem :: "storage \<Rightarrow> string \<Rightarrow> (exn + unit) \<times> storage" where
  "removeItem s k =
     (let s' = s\<lparr>calls := calls s @ [RemoveItem k]\<rparr>
      in if remove_throws s then (Inl StorageError, s')
         else (Inr (), s'\<lparr>items := (items s)(k := None)\<rparr>))"

section \<open>The world the two services run in\<close>

record world =
  localStorage :: storage
  clock :: nat                          \<comment> \<open>\<open>Date.now()\<close>, epoch milliseconds\<close>
  rng :: "nat \<Rightarrow> real"                   \<comment> \<open>the results of successive \<open>Math.random()\<close> calls\<close>
  rng_pos :: nat                        \<comment> \<open>how many of them have been drawn\<close>
  settings :: json                      \<comment> \<open>\<open>ConsentManager.settings\<close>, \<open>JNull\<close> for \<open>null\<close>\<close>
  saveTimeout :: "nat option"           \<comment> \<open>\<open>WindowPersistenceService.saveTimeout\<close>\<close>
  pending :: "(nat \<times> nat) list"         \<comment> \<open>scheduled timers: handle and due time\<close>
  next_handle :: nat                    \<comment> \<open>the handle the next \<open>setTimeout\<close> returns\<close>
  inner_size :: "nat \<times> nat"             \<comment> \<open>the platform window's current inner size\<close>
  innerSize_fails :: bool               \<comment> \<open>\<open>window.innerSize()\<close> rejects\<close>
  setSize_fails :: bool                 \<comment> \<open>\<open>window.setSize()\<close> rejects\<close>
  setSize_calls :: "(json option \<times> json option) list"  \<comment> \<open>the \<open>setSize\<close> calls issued\<close>

text \<open>Sequencing of computations that may throw, and \<open>try\<close>/\<open>catch\<close>.\<close>

type_synonym 'a comp = "world \<Rightarrow> (exn + 'a) \<times> world"

definition and_then :: "'a comp \<Rightarrow> ('a \<Rightarrow> 'b comp) \<Rightarrow> 'b comp" where
  "and_then m f w = (case m w of (Inl e, w') \<Rightarrow> (Inl e, w') | (Inr x, w') \<Rightarrow> f x w')"

definition try_catch :: "'a comp \<Rightarrow> (exn \<Rightarrow> 'a comp) \<Rightarrow> 'a comp" where
  "try_catch m h w = (case m w of (Inl e, w') \<Rightarrow> h e w' | (Inr x, w') \<Rightarrow> (Inr x, w'))"

definition ret :: "'a \<Rightarrow> 'a comp" where
  "ret x w = (Inr x, w)"

definition ls_getItem :: "string \<Rightarrow> (string option) comp" where
  "ls_getItem k w = (getItem (localStorage w) k, w)"

definition ls_setItem :: "string \<Rightarrow> string \<Rightarrow> unit comp" where
  "ls_setItem k v w =
     (case setItem (localStorage w) k v of (r, s') \<Rightarrow> (r, w\<lparr>localStorage := s'\<rparr>))"

definition ls_removeItem :: "string \<Rightarrow> unit comp" where
  "ls_removeItem k w =
     (case removeItem (localStorage w) k of (r, s') \<Rightarrow> (r, w\<lparr>localStorage := s'\<rparr>))"

definition Math_random :: "real comp" where
  "Math_random w = (Inr (rng w (rng_pos w)), w\<lparr>rng_pos := Suc (rng_pos w)\<rparr>)"

section \<open>ConsentManager\<close>

definition ANALYTICS_STORAGE_KEY :: string where
  "ANALYTICS_STORAGE_KEY = ''claudia-analytics-settings''"

definition default_settings :: json where
  "default_settings =
     JObj [(''enabled'', JBool False), (''hasConsented'', JBool False),
           (''hasSeenBanner'', JBool False)]"

subsection \<open>Identifier generation\<close>

text \<open>\<open>x | 0\<close>: ToInt32 of a finite number.\<close>

definition to_int32 :: "real \<Rightarrow> int" where
  "to_int32 x =
     (let n = (if 0 \<le> x then \<lfloor>x\<rfloor> else \<lceil>x\<rceil>); m = n mod 2 ^ 32
      in if 2 ^ 31 \<le> m then m - 2 ^ 32 else m)"

definition digit_char :: "nat \<Rightarrow> char" where
  "digit_char d = (''0123456789abcdefghijklmnopqrstuvwxyz'') ! d"

fun nat_to_radix :: "nat \<Rightarrow> nat \<Rightarrow> string" where
  "nat_to_radix b n =
     (if n < b \<or> b < 2 then [digit_char n]
      else nat_to_radix b (n div b) @ [digit_char (n mod b)])"

text \<open>\<open>v.toString(16)\<close> of an integer, and the decimal rendering of \<open>Date.now()\<close>.\<close>

definition toString16 :: "int \<Rightarrow> string" where
  "toString16 v =
     (if v < 0 then CHR ''-'' # nat_to_radix 16 (nat (- v)) else nat_to_radix 16 (nat v))"

definition show_nat :: "nat \<Rightarrow> string" where
  "show_nat n = nat_to_radix 10 n"

text \<open>
  \<open>template.replace(/[xy]/g, c => ...)\<close>: left to right, every \<open>x\<close> and \<open>y\<close> is replaced by
  the hexadecimal rendering of a fresh random value; the position in the random stream is
  returned with the string.
\<close>

fun replace_xy :: "(nat \<Rightarrow> real) \<Rightarrow> nat \<Rightarrow> string \<Rightarrow> string \<times> nat" where
  "replace_xy f i [] = ([], i)"
| "replace_xy f i (c # cs) =
     (if c = CHR ''x'' \<or> c = CHR ''y'' then
        (let r = to_int32 (f i * 16);
             v = (if c = CHR ''x'' then r else (r AND 3) OR 8);
             (rest, j) = replace_xy f (Suc i) cs
         in (toString16 v @ rest, j))
      else
        (let (rest, j) = replace_xy f i cs in (c # rest, j)))"

definition uuid_template :: string where
  "uuid_template = ''xxxxxxxx-xxxx-4xxx-yxxx-xxxxxxxxxxxx''"

definition generateAnonymousId :: "string comp" where
  "generateAnonymousId w =
     (let (s, j) = replace_xy (rng w) (rng_pos w) uuid_template
      in (Inr s, w\<lparr>rng_pos := j\<rparr>))"

definition generateSessionId :: "runtime \<Rightarrow> string comp" where
  "generateSessionId rt =
     and_then Math_random (\<lambda>r w.
       (Inr (show_nat (clock w) @ ''-'' @ take 9 (drop 2 (toString36 rt r))), w))"

subsection \<open>The operations\<close>

definition saveSettings :: "runtime \<Rightarrow> unit comp" where
  "saveSettings rt w =
     (if \<not> truthy (settings w) then (Inr (), w)
      else try_catch (ls_setItem ANALYTICS_STORAGE_KEY (JSON_stringify rt (settings w)))
             (\<lambda>e. ret ()) w)"

text \<open>\<open>this.settings.k = x\<close>.\<close>

definition assign_setting :: "string \<Rightarrow> json \<Rightarrow> unit comp" where
  "assign_setting k x w =
     (case set_prop (settings w) k x of
        Inl e \<Rightarrow> (Inl e, w)
      | Inr v \<Rightarrow> (Inr (), w\<lparr>settings := v\<rparr>))"

text \<open>\<open>this.settings.k\<close>.\<close>

definition read_setting :: "string \<Rightarrow> (json option) comp" where
  "read_setting k w = (get_prop (settings w) k, w)"

text \<open>Lines 21 to 31: load the stored record or take the defaults.\<close>

definition load_settings :: "runtime \<Rightarrow> string option \<Rightarrow> unit comp" where
  "load_settings rt stored w =
     (case stored of
        None \<Rightarrow> (Inr (), w\<lparr>settings := default_settings\<rparr>)
      | Some s \<Rightarrow>
          if s = [] then (Inr (), w\<lparr>settings := default_settings\<rparr>)
          else (case JSON_parse rt s of
                  None \<Rightarrow> (Inl SyntaxError, w)
                | Some v \<Rightarrow> (Inr (), w\<lparr>settings := v\<rparr>)))"

text \<open>Lines 33 to 37: generate the anonymous user id if there is none.\<close>

definition backfill_userId :: "runtime \<Rightarrow> unit comp" where
  "backfill_userId rt w =
     (if \<not> truthy (settings w) then (Inr (), w)
      else and_then (read_setting ''userId'') (\<lambda>uid.
             if truthy_opt uid then ret ()
             else and_then generateAnonymousId (\<lambda>fresh.
                  and_then (assign_setting ''userId'' (JStr fresh)) (\<lambda>_.
                  saveSettings rt))) w)"

text \<open>Lines 39 to 42: a new session id on every call.\<close>

definition assign_sessionId :: "runtime \<Rightarrow> unit comp" where
  "assign_sessionId rt w =
     (if \<not> truthy (settings w) then (Inr (), w)
      else and_then (generateSessionId rt) (\<lambda>sid.
             assign_setting ''sessionId'' (JStr sid)) w)"

text \<open>Lines 44 to 55: the backfill of \<open>hasSeenBanner\<close>.\<close>

definition backfill_hasSeenBanner :: "runtime \<Rightarrow> unit comp" where
  "backfill_hasSeenBanner rt w =
     (if \<not> truthy (settings w) then (Inr (), w)
      else and_then (read_setting ''hasSeenBanner'') (\<lambda>seen.
             if seen \<noteq> None then ret ()
             else and_then (read_setting ''hasConsented'') (\<lambda>a.
                  and_then (read_setting ''consentDate'') (\<lambda>b.
                  and_then (read_setting ''userId'') (\<lambda>c.
                  and_then (assign_setting ''hasSeenBanner''
                              (JBool (truthy_opt a \<or> truthy_opt b \<or> truthy_opt c))) (\<lambda>_.
                  saveSettings rt))))) w)"

definition initialize_body :: "runtime \<Rightarrow> json comp" where
  "initialize_body rt =
     and_then (ls_getItem ANALYTICS_STORAGE_KEY) (\<lambda>stored.
     and_then (load_settings rt stored) (\<lambda>_.
     and_then (backfill_userId rt) (\<lambda>_.
     and_then (assign_sessionId rt) (\<lambda>_.
     and_then (backfill_hasSeenBanner rt) (\<lambda>_ w.
       (Inr (if truthy (settings w) then settings w else default_settings), w))))))"

definition initialize :: "runtime \<Rightarrow> json comp" where
  "initialize rt = try_catch (initialize_body rt) (\<lambda>e. ret default_settings)"

definition ensure_initialized :: "runtime \<Rightarrow> unit comp" where
  "ensure_initialized rt w =
     (if \<not> truthy (settings w) then and_then (initialize rt) (\<lambda>_. ret ()) w
      else (Inr (), w))"

definition grantConsent :: "runtime \<Rightarrow> unit comp" where
  "grantConsent rt =
     and_then (ensure_initialized rt) (\<lambda>_.
     and_then (assign_setting ''enabled'' (JBool True)) (\<lambda>_.
     and_then (assign_setting ''hasConsented'' (JBool True)) (\<lambda>_.
     and_then (assign_setting ''hasSeenBanner'' (JBool True)) (\<lambda>_.
     and_then (\<lambda>w. assign_setting ''consentDate'' (JStr (toISOString rt (clock w))) w) (\<lambda>_.
     saveSettings rt)))))"

definition revokeConsent :: "runtime \<Rightarrow> unit comp" where
  "revokeConsent rt =
     and_then (ensure_initialized rt) (\<lambda>_.
     and_then (assign_setting ''enabled'' (JBool False)) (\<lambda>_.
     and_then (assign_setting ''hasSeenBanner'' (JBool True)) (\<lambda>_.
     and_then (\<lambda>w. assign_setting ''consentDate'' (JStr (toISOString rt (clock w))) w) (\<lambda>_.
     saveSettings rt))))"

definition deleteAllData :: "runtime \<Rightarrow> unit comp" where
  "deleteAllData rt =
     and_then (ls_removeItem ANALYTICS_STORAGE_KEY) (\<lambda>_.
     and_then generateAnonymousId (\<lambda>uid.
     and_then (generateSessionId rt) (\<lambda>sid.
     and_then (\<lambda>w. (Inr (), w\<lparr>settings :=
                  JObj [(''enabled'', JBool False), (''hasConsented'', JBool False),
                        (''hasSeenBanner'', JBool False), (''userId'', JStr uid),
                        (''sessionId'', JStr sid)]\<rparr>)) (\<lambda>_.
     saveSettings rt))))"

section \<open>WindowPersistenceService\<close>

definition WINDOW_SIZE_KEY :: string where
  "WINDOW_SIZE_KEY = ''claudia_window_size''"

definition PERSISTENCE_ENABLED_KEY :: string where
  "PERSISTENCE_ENABLED_KEY = ''claudia_window_persistence_enabled''"

text \<open>\<open>String(enabled)\<close>.\<close>

definition String_of_bool :: "bool \<Rightarrow> string" where
  "String_of_bool b = (if b then ''true'' else ''false'')"

definition isEnabled :: "bool comp" where
  "isEnabled =
     and_then (ls_getItem PERSISTENCE_ENABLED_KEY) (\<lambda>enabled.
       ret (enabled = None \<or> enabled = Some ''true''))"

definition clearWindowSize :: "unit comp" where
  "clearWindowSize = ls_removeItem WINDOW_SIZE_KEY"

definition setEnabled :: "bool \<Rightarrow> unit comp" where
  "setEnabled enabled =
     and_then (ls_setItem PERSISTENCE_ENABLED_KEY (String_of_bool enabled)) (\<lambda>_.
       if \<not> enabled then clearWindowSize else ret ())"

subsection \<open>Timers\<close>

text \<open>
  \<open>setTimeout\<close> returns a fresh handle and schedules the callback; the only callback this
  service ever schedules is the deferred save, so a scheduled timer is its handle and its
  due time. \<open>clearTimeout\<close> unschedules a handle, and does nothing for one that has fired.
\<close>

definition setTimeout :: "nat \<Rightarrow> nat comp" where
  "setTimeout delay w =
     (Inr (next_handle w),
      w\<lparr>pending := pending w @ [(next_handle w, clock w + delay)],
        next_handle := Suc (next_handle w)\<rparr>)"

definition clearTimeout :: "nat \<Rightarrow> unit comp" where
  "clearTimeout h w = (Inr (), w\<lparr>pending := filter (\<lambda>p. fst p \<noteq> h) (pending w)\<rparr>)"

subsection \<open>Saving\<close>

definition window_record :: "nat \<Rightarrow> nat \<Rightarrow> nat \<Rightarrow> json" where
  "window_record wd ht ts =
     JObj [(''width'', JNum (Fin (real wd))), (''height'', JNum (Fin (real ht))),
           (''timestamp'', JNum (Fin (real ts)))]"

definition innerSize :: "(nat \<times> nat) comp" where
  "innerSize w = (if innerSize_fails w then (Inl PlatformError, w) else (Inr (inner_size w), w))"

text \<open>
  The deferred callback of lines 53 to 69. It reads the window's size when it runs, and it
  does not look at the persistence flag.
\<close>

definition save_callback :: "runtime \<Rightarrow> unit comp" where
  "save_callback rt =
     try_catch
       (and_then innerSize (\<lambda>size w.
          ls_setItem WINDOW_SIZE_KEY
            (JSON_stringify rt (window_record (fst size) (snd size) (clock w))) w))
       (\<lambda>e. ret ())"

text \<open>A timer handle is a number; \<open>if (this.saveTimeout)\<close> is its truthiness.\<close>

definition saveWindowSize :: "unit comp" where
  "saveWindowSize =
     and_then isEnabled (\<lambda>enabled.
       if \<not> enabled then ret ()
       else and_then (\<lambda>w. (case saveTimeout w of
                              Some h \<Rightarrow> if h \<noteq> 0 then clearTimeout h w else (Inr (), w)
                            | None \<Rightarrow> (Inr (), w))) (\<lambda>_.
            and_then (setTimeout 500) (\<lambda>h w.
              (Inr (), w\<lparr>saveTimeout := Some h\<rparr>))))"

subsection \<open>Restoring and reading\<close>

definition setSize :: "json option \<Rightarrow> json option \<Rightarrow> unit comp" where
  "setSize wd ht w =
     (let w' = w\<lparr>setSize_calls := setSize_calls w @ [(wd, ht)]\<rparr>
      in if setSize_fails w then (Inl PlatformError, w') else (Inr (), w'))"

definition invalid_size :: "runtime \<Rightarrow> json option \<Rightarrow> json option \<Rightarrow> bool" where
  "invalid_size rt wd ht =
     (\<not> truthy_opt wd \<or> \<not> truthy_opt ht \<or>
      num_lt (to_number rt wd) (Fin 400) \<or> num_lt (to_number rt ht) (Fin 300) \<or>
      num_gt (to_number rt wd) (Fin 4000) \<or> num_gt (to_number rt ht) (Fin 3000))"

definition parse_or_throw :: "runtime \<Rightarrow> string \<Rightarrow> json comp" where
  "parse_or_throw rt s w =
     (case JSON_parse rt s of None \<Rightarrow> (Inl SyntaxError, w) | Some v \<Rightarrow> (Inr v, w))"

definition restoreWindowSize :: "runtime \<Rightarrow> bool comp" where
  "restoreWindowSize rt =
     and_then isEnabled (\<lambda>enabled.
       if \<not> enabled then ret False
       else try_catch
         (and_then (ls_getItem WINDOW_SIZE_KEY) (\<lambda>savedData.
            case savedData of
              None \<Rightarrow> ret False
            | Some s \<Rightarrow>
                if s = [] then ret False
                else and_then (parse_or_throw rt s) (\<lambda>windowSize.
                     and_then (\<lambda>w. (get_prop windowSize ''width'', w)) (\<lambda>wd.
                     and_then (\<lambda>w. (get_prop windowSize ''height'', w)) (\<lambda>ht.
                       if invalid_size rt wd ht then ret False
                       else and_then (setSize wd ht) (\<lambda>_. ret True))))))
         (\<lambda>e. ret False))"

definition getSavedWindowSize :: "runtime \<Rightarrow> json comp" where
  "getSavedWindowSize rt =
     and_then isEnabled (\<lambda>enabled.
       if \<not> enabled then ret JNull
       else try_catch
         (and_then (ls_getItem WINDOW_SIZE_KEY) (\<lambda>savedData.
            case savedData of
              None \<Rightarrow> ret JNull
            | Some s \<Rightarrow> if s = [] then ret JNull else parse_or_throw rt s))
         (\<lambda>e. ret JNull))"

subsection \<open>The event loop\<close>

text \<open>
  What happens to the service over time: a call of \<open>saveWindowSize\<close> or \<open>setEnabled\<close>, the
  user resizing the window, and time passing. When time passes, the timers that fall due
  fire in the order of their due times, each at its due time.
\<close>

datatype event = SaveWindowSize | SetEnabled bool | WindowResized nat nat | Elapse nat

definition fire :: "runtime \<Rightarrow> nat \<times> nat \<Rightarrow> world \<Rightarrow> world" where
  "fire rt p w =
     snd (save_callback rt
            (w\<lparr>clock := max (clock w) (snd p), pending := removeAll p (pending w)\<rparr>))"

definition elapse :: "runtime \<Rightarrow> nat \<Rightarrow> world \<Rightarrow> world" where
  "elapse rt d w =
     (let t = clock w + d;
          due = sort_key snd (filter (\<lambda>p. snd p \<le> t) (pending w))
      in (fold (fire rt) due w)\<lparr>clock := t\<rparr>)"

fun step :: "runtime \<Rightarrow> event \<Rightarrow> world \<Rightarrow> world" where
  "step rt SaveWindowSize w = snd (saveWindowSize w)"
| "step rt (SetEnabled b) w = snd (setEnabled b w)"
| "step rt (WindowResized wd ht) w = w\<lparr>inner_size := (wd, ht)\<rparr>"
| "step rt (Elapse d) w = elapse rt d w"

definition run :: "runtime \<Rightarrow> event list \<Rightarrow> world \<Rightarrow> world" where
  "run rt evs w = fold (step rt) evs w"

section \<open>A concrete runtime and concrete worlds\<close>

text \<open>
  The examples below run the services on concrete inputs. \<open>demo_parse\<close> is \<open>JSON.parse\<close>
  on the strings it lists (every other string counts as malformed), and \<open>demo_stringify\<close>
  is \<open>JSON.stringify\<close> on flat records of booleans, strings without escapes and
  natural numbers.
\<close>

definition legacy_stored :: string where
  \<open>legacy_stored = ''{"enabled":false,"hasConsented":false}''\<close>

definition corrupt_stored :: string where
  \<open>corrupt_stored = ''{not json''\<close>

definition small_stored :: string where
  \<open>small_stored = ''{"width":200,"height":200,"timestamp":1}''\<close>

definition hd_stored :: string where
  \<open>hd_stored = ''{"width":1920,"height":1080,"timestamp":1}''\<close>

definition small_record :: json where
  "small_record =
     JObj [(''width'', JNum (Fin 200)), (''height'', JNum (Fin 200)),
           (''timestamp'', JNum (Fin 1))]"

definition hd_record :: json where
  "hd_record =
     JObj [(''width'', JNum (Fin 1920)), (''height'', JNum (Fin 1080)),
           (''timestamp'', JNum (Fin 1))]"

definition demo_parse :: "string \<Rightarrow> json option" where
  "demo_parse =
     map_of [(legacy_stored, JObj [(''enabled'', JBool False), (''hasConsented'', JBool False)]),
             (''null'', JNull),
             (small_stored, small_record),
             (hd_stored, hd_record)]"

fun demo_atom :: "json \<Rightarrow> string" where
  "demo_atom JNull = ''null''"
| "demo_atom (JBool b) = (if b then ''true'' else ''false'')"
| "demo_atom (JNum (Fin r)) = show_nat (nat \<lfloor>r\<rfloor>)"
| "demo_atom (JNum n) = ''null''"
| "demo_atom (JStr s) = CHR 0x22 # s @ [CHR 0x22]"
| "demo_atom (JArr xs ps) = ''[]''"
| "demo_atom (JObj ps) = ''{}''"

fun demo_fields :: "(string \<times> json) list \<Rightarrow> string" where
  "demo_fields [] = []"
| "demo_fields [(k, v)] = CHR 0x22 # k @ [CHR 0x22] @ '':'' @ demo_atom v"
| "demo_fields ((k, v) # ps) =
     CHR 0x22 # k @ [CHR 0x22] @ '':'' @ demo_atom v @ '','' @ demo_fields ps"

definition demo_stringify :: "json \<Rightarrow> string" where
  "demo_stringify v =
     (case v of JObj ps \<Rightarrow> ''{'' @ demo_fields ps @ ''}'' | _ \<Rightarrow> demo_atom v)"

definition demo_rt :: runtime where
  "demo_rt =
     \<lparr>JSON_parse = demo_parse, JSON_stringify = demo_stringify,
      ToNumber_ext = (\<lambda>v. NaN), toISOString = (\<lambda>t. ''2023-11-14T22:13:20.000Z''),
      toString36 = (\<lambda>r. ''0.4fzyo82mvyr'')\<rparr>"

text \<open>
  A fresh installation: empty storage that works, no settings loaded, no timer, an 800 by
  600 window, and a random source that returns 0 every time.
\<close>

definition world0 :: world where
  "world0 =
     \<lparr>localStorage = \<lparr>items = Map.empty, calls = [], get_throws = False,
                       set_throws = False, remove_throws = False\<rparr>,
      clock = 1700000000000, rng = (\<lambda>i. 0), rng_pos = 0, settings = JNull,
      saveTimeout = None, pending = [], next_handle = 1, inner_size = (800, 600),
      innerSize_fails = False, setSize_fails = False, setSize_calls = []\<rparr>"

definition with_item :: "string \<Rightarrow> string \<Rightarrow> world \<Rightarrow> world" where
  "with_item k v w =
     w\<lparr>localStorage := (localStorage w)\<lparr>items := (items (localStorage w))(k \<mapsto> v)\<rparr>\<rparr>"

text \<open>The world after the user of a fresh installation has granted consent.\<close>

definition consented_world :: world where
  "consented_world = snd (grantConsent demo_rt world0)"

section \<open>Notions used in the statements\<close>

text \<open>A number lies in a closed interval; an infinity and \<open>NaN\<close> lie in none.\<close>

definition in_range :: "real \<Rightarrow> real \<Rightarrow> number \<Rightarrow> bool" where
  "in_range lo hi n = (case n of Fin r \<Rightarrow> lo \<le> r \<and> r \<le> hi | _ \<Rightarrow> False)"

text \<open>A value that takes a property assignment: an object or an array.\<close>

definition assignable :: "json \<Rightarrow> bool" where
  "assignable v = (case v of JObj ps \<Rightarrow> True | JArr xs ps \<Rightarrow> True | _ \<Rightarrow> False)"

text \<open>
  The timers of a world are in order when the only timer that may be scheduled is the one
  whose handle \<open>saveTimeout\<close> holds, and handles are positive (as the handles of
  \<open>setTimeout\<close> are). \<open>armed t\<close>: that timer is scheduled and due at \<open>t\<close>.
\<close>

definition timer_inv :: "world \<Rightarrow> bool" where
  "timer_inv w \<longleftrightarrow>
     next_handle w \<noteq> 0 \<and>
     (pending w = [] \<or>
      (\<exists>h t. pending w = [(h, t)] \<and> saveTimeout w = Some h \<and> h \<noteq> 0))"

definition armed :: "nat \<Rightarrow> world \<Rightarrow> bool" where
  "armed t w \<longleftrightarrow>
     next_handle w \<noteq> 0 \<and> (\<exists>h. pending w = [(h, t)] \<and> saveTimeout w = Some h \<and> h \<noteq> 0)"

text \<open>
  A burst of calls of \<open>saveWindowSize\<close>: a first call, then for every \<open>(d, wd, ht)\<close> of the
  list a wait of \<open>d\<close> milliseconds, the window taking the size \<open>wd\<close> by \<open>ht\<close>, and another
  call.
\<close>

definition burst_tail :: "(nat \<times> nat \<times> nat) list \<Rightarrow> event list" where
  "burst_tail gs =
     concat (map (\<lambda>g. [Elapse (fst g), WindowResized (fst (snd g)) (snd (snd g)),
                        SaveWindowSize]) gs)"

definition burst :: "(nat \<times> nat \<times> nat) list \<Rightarrow> event list" where
  "burst gs = SaveWindowSize # burst_tail gs"

section \<open>Evaluation lemmas\<close>

declare nat_to_radix.simps [simp del]

lemmas comp_defs = and_then_def try_catch_def ret_def ls_getItem_def ls_setItem_def
  ls_removeItem_def getItem_def setItem_def removeItem_def Math_random_def

lemmas cm_defs = initialize_def initialize_body_def load_settings_def backfill_userId_def
  assign_sessionId_def backfill_hasSeenBanner_def saveSettings_def assign_setting_def
  read_setting_def generateAnonymousId_def generateSessionId_def ensure_initialized_def

lemmas win_defs = isEnabled_def clearWindowSize_def setEnabled_def setTimeout_def
  clearTimeout_def innerSize_def save_callback_def saveWindowSize_def setSize_def
  parse_or_throw_def restoreWindowSize_def getSavedWindowSize_def

lemmas demo_defs = demo_rt_def demo_parse_def world0_def with_item_def corrupt_stored_def
  legacy_stored_def small_stored_def hd_stored_def small_record_def hd_record_def
  ANALYTICS_STORAGE_KEY_def WINDOW_SIZE_KEY_def PERSISTENCE_ENABLED_KEY_def

lemma nat_to_radix_digit: "n < b \<Longrightarrow> nat_to_radix b n = [digit_char n]"
  by (subst nat_to_radix.simps) simp

lemma nat_to_radix_step:
  "\<not> n < b \<Longrightarrow> 2 \<le> b \<Longrightarrow>
     nat_to_radix b n = nat_to_radix b (n div b) @ [digit_char (n mod b)]"
  by (subst nat_to_radix.simps) simp

lemmas radix_eval = show_nat_def toString16_def nat_to_radix_digit nat_to_radix_step
  digit_char_def

lemma nat_to_radix_nonempty: "nat_to_radix b n \<noteq> []"
  by (subst nat_to_radix.simps) simp

lemma toString16_nonempty: "toString16 v \<noteq> []"
  by (simp add: toString16_def nat_to_radix_nonempty)

lemma replace_xy_template_nonempty: "fst (replace_xy f i uuid_template) \<noteq> []"
  by (simp add: uuid_template_def Let_def toString16_nonempty split: prod.splits)

text \<open>With a constant random source the generated string does not depend on the position.\<close>

lemma replace_xy_const: "fst (replace_xy (\<lambda>i. c) i cs) = fst (replace_xy (\<lambda>i. c) 0 cs)"
proof (induction cs arbitrary: i)
  case Nil
  show ?case by simp
next
  case (Cons a cs)
  have "fst (replace_xy (\<lambda>i. c) (Suc i) cs) = fst (replace_xy (\<lambda>i. c) (Suc 0) cs)"
    using Cons.IH [of "Suc i"] Cons.IH [of "Suc 0"] by simp
  with Cons.IH [of i] show ?case
    by (simp add: split_def Let_def)
qed

lemma uuid_zero_start:
  "replace_xy (\<lambda>i. 0) 0 uuid_template = (''00000000-0000-4000-8000-000000000000'', 31)"
  by code_simp

lemma uuid_zero:
  "fst (replace_xy (\<lambda>i. 0) i uuid_template) = ''00000000-0000-4000-8000-000000000000''"
  using replace_xy_const [of 0 i uuid_template] by (simp add: uuid_zero_start)

section \<open>ConsentManager: the claims\<close>

subsection \<open>initialize\<close>

lemma initialize_never_raises: "\<exists>v. fst (initialize rt w) = Inr v"
  by (simp add: initialize_def try_catch_def ret_def split: prod.splits sum.splits)

text \<open>
  Whatever the stored record holds, once it lacks \<open>hasSeenBanner\<close> the backfill sets the
  field to \<open>true\<close>: the user id is generated (lines 33 to 37) before the heuristic reads
  it (lines 49 to 51), so \<open>hasInteractedBefore\<close> is always truthy.
\<close>

lemma initialize_backfill_always_true:
  assumes "\<not> get_throws (localStorage w)"
    and "items (localStorage w) ANALYTICS_STORAGE_KEY = Some s" and "s \<noteq> []"
    and "JSON_parse rt s = Some (JObj ps)"
    and "map_of ps ''hasSeenBanner'' = None"
  shows "\<exists>qs. fst (initialize rt w) = Inr (JObj qs) \<and>
              map_of qs ''hasSeenBanner'' = Some (JBool True)"
proof (cases "truthy_opt (map_of ps ''userId'')")
  case True
  with assms show ?thesis
    by (simp add: cm_defs comp_defs update_conv' Let_def split: prod.splits sum.splits)
next
  case False
  obtain u j where u: "replace_xy (rng w) (rng_pos w) uuid_template = (u, j)"
    by (cases "replace_xy (rng w) (rng_pos w) uuid_template")
  have "u \<noteq> []"
    using replace_xy_template_nonempty [of "rng w" "rng_pos w"] u by simp
  with assms False u show ?thesis
    by (simp add: cm_defs comp_defs update_conv' Let_def split: prod.splits sum.splits)
qed

text \<open>
  Claim C1 says that for a stored record without \<open>hasSeenBanner\<close>, \<open>initialize()\<close> sets
  the field to \<open>true\<close> exactly when \<open>hasConsented\<close>, \<open>consentDate\<close> or \<open>userId\<close> is
  truthy in the stored record, and to \<open>false\<close> otherwise. The code does not do the second
  half: on the stored record \<open>{"enabled":false,"hasConsented":false}\<close>, which has none of
  the three, \<open>initialize()\<close> returns a record with \<open>hasSeenBanner\<close> set to \<open>true\<close>.
\<close>

theorem initialize_legacy_record:
  "JSON_parse demo_rt legacy_stored =
     Some (JObj [(''enabled'', JBool False), (''hasConsented'', JBool False)]) \<and>
   fst (initialize demo_rt (with_item ANALYTICS_STORAGE_KEY legacy_stored world0)) =
     Inr (JObj [(''enabled'', JBool False), (''hasConsented'', JBool False),
                (''userId'', JStr ''00000000-0000-4000-8000-000000000000''),
                (''sessionId'', JStr ''1700000000000-4fzyo82mv''),
                (''hasSeenBanner'', JBool True)])"
  by (simp add: cm_defs comp_defs demo_defs split_def uuid_zero radix_eval)

text \<open>
  Claim C4: when loading the stored record fails in \<open>initialize()\<close>, because the storage
  backend throws on the read or because the stored string (any non-empty string) does not
  parse, the call returns the default settings and does not raise, and the world is left
  as it was: no write to storage, and the settings in memory untouched.
\<close>

theorem initialize_load_failure:
  assumes "get_throws (localStorage w) \<or>
           (\<exists>s. items (localStorage w) ANALYTICS_STORAGE_KEY = Some s \<and> s \<noteq> [] \<and>
                JSON_parse rt s = None)"
  shows "initialize rt w = (Inr default_settings, w)"
  using assms by (auto simp: cm_defs comp_defs)

theorem initialize_load_failure_witness:
  "items (localStorage (with_item ANALYTICS_STORAGE_KEY corrupt_stored world0))
     ANALYTICS_STORAGE_KEY = Some corrupt_stored \<and>
   JSON_parse demo_rt corrupt_stored = None \<and>
   fst (initialize demo_rt (with_item ANALYTICS_STORAGE_KEY corrupt_stored world0)) =
     Inr default_settings \<and>
   calls (localStorage
            (snd (initialize demo_rt (with_item ANALYTICS_STORAGE_KEY corrupt_stored world0)))) =
     []"
proof -
  let ?w = "with_item ANALYTICS_STORAGE_KEY corrupt_stored world0"
  have h: "items (localStorage ?w) ANALYTICS_STORAGE_KEY = Some corrupt_stored"
    by (simp add: with_item_def)
  have p: "JSON_parse demo_rt corrupt_stored = None"
    by (simp add: demo_defs)
  have n: "corrupt_stored \<noteq> []"
    by (simp add: corrupt_stored_def)
  have c: "calls (localStorage ?w) = []"
    by (simp add: with_item_def world0_def)
  from h p n have "initialize demo_rt ?w = (Inr default_settings, ?w)"
    by (intro initialize_load_failure) blast
  with h p c show ?thesis by simp
qed

lemma saveSettings_result: "fst (saveSettings rt w) = Inr ()"
  by (simp add: saveSettings_def comp_defs Let_def)

lemma load_settings_storage:
  "localStorage (snd (load_settings rt stored w)) = localStorage w"
  by (auto simp: load_settings_def split: option.splits if_splits)

lemma backfill_userId_failure:
  "fst (backfill_userId rt w) = Inl e \<Longrightarrow>
     localStorage (snd (backfill_userId rt w)) = localStorage w"
  by (cases "settings w")
     (auto simp: backfill_userId_def read_setting_def assign_setting_def generateAnonymousId_def
        saveSettings_def comp_defs Let_def split: prod.splits sum.splits if_splits)

lemma backfill_userId_success:
  "fst (backfill_userId rt w) = Inr u \<Longrightarrow>
     \<not> truthy (settings (snd (backfill_userId rt w))) \<or>
     assignable (settings (snd (backfill_userId rt w)))"
  by (cases "settings w")
     (auto simp: backfill_userId_def read_setting_def assign_setting_def generateAnonymousId_def
        saveSettings_def comp_defs Let_def assignable_def split: prod.splits sum.splits if_splits)

lemma assign_sessionId_ok:
  "\<not> truthy (settings w) \<or> assignable (settings w) \<Longrightarrow>
     fst (assign_sessionId rt w) = Inr () \<and>
     (\<not> truthy (settings (snd (assign_sessionId rt w))) \<or>
      assignable (settings (snd (assign_sessionId rt w))))"
  by (cases "settings w")
     (auto simp: assign_sessionId_def generateSessionId_def assign_setting_def comp_defs
        assignable_def split: prod.splits sum.splits)

lemma backfill_hasSeenBanner_ok:
  "\<not> truthy (settings w) \<or> assignable (settings w) \<Longrightarrow>
     fst (backfill_hasSeenBanner rt w) = Inr ()"
  by (cases "settings w")
     (auto simp: backfill_hasSeenBanner_def read_setting_def assign_setting_def saveSettings_def
        comp_defs assignable_def Let_def split: prod.splits sum.splits)

text \<open>
  More generally, whatever fails inside the \<open>try\<close> block, also the \<open>TypeError\<close> of
  assigning \<open>userId\<close> to a stored primitive such as \<open>5\<close>, the defaults are returned and
  nothing has been written to storage: once the first assignment has succeeded nothing
  can fail any more.
\<close>

lemma initialize_any_failure:
  assumes "fst (initialize_body rt w) = Inl e"
  shows "fst (initialize rt w) = Inr default_settings \<and>
         localStorage (snd (initialize rt w)) = localStorage w"
proof -
  have body: "localStorage (snd (initialize_body rt w)) = localStorage w"
  proof (cases "getItem (localStorage w) ANALYTICS_STORAGE_KEY")
    case (Inl x)
    then show ?thesis
      by (simp add: initialize_body_def and_then_def ls_getItem_def)
  next
    case (Inr stored)
    obtain r1 w1 where l: "load_settings rt stored w = (r1, w1)"
      by (cases "load_settings rt stored w")
    have s1: "localStorage w1 = localStorage w"
      using load_settings_storage [of rt stored w] l by simp
    show ?thesis
    proof (cases r1)
      case (Inl x)
      with Inr l s1 show ?thesis
        by (simp add: initialize_body_def and_then_def ls_getItem_def)
    next
      case r1: (Inr u1)
      obtain r2 w2 where b: "backfill_userId rt w1 = (r2, w2)"
        by (cases "backfill_userId rt w1")
      show ?thesis
      proof (cases r2)
        case (Inl x)
        with backfill_userId_failure [of rt w1 x] b have "localStorage w2 = localStorage w1"
          by simp
        with Inr l r1 b Inl s1 show ?thesis
          by (simp add: initialize_body_def and_then_def ls_getItem_def)
      next
        case r2: (Inr u2)
        with backfill_userId_success [of rt w1 u2] b
        have ok2: "\<not> truthy (settings w2) \<or> assignable (settings w2)"
          by simp
        obtain r3 w3 where a: "assign_sessionId rt w2 = (r3, w3)"
          by (cases "assign_sessionId rt w2")
        from assign_sessionId_ok [OF ok2, of rt] a
        have r3: "r3 = Inr ()" and ok3: "\<not> truthy (settings w3) \<or> assignable (settings w3)"
          by simp_all
        obtain r4 w4 where h: "backfill_hasSeenBanner rt w3 = (r4, w4)"
          by (cases "backfill_hasSeenBanner rt w3")
        from backfill_hasSeenBanner_ok [OF ok3, of rt] h have r4: "r4 = Inr ()"
          by simp
        from Inr l r1 b r2 a r3 h r4 have "\<exists>v. fst (initialize_body rt w) = Inr v"
          by (simp add: initialize_body_def and_then_def ls_getItem_def)
        with assms show ?thesis by simp
      qed
    qed
  qed
  obtain r w' where ib: "initialize_body rt w = (r, w')"
    by (cases "initialize_body rt w")
  with assms body show ?thesis
    by (simp add: initialize_def try_catch_def ret_def)
qed

subsection \<open>grantConsent and revokeConsent\<close>

text \<open>
  On a settings record that is loaded, \<open>grantConsent()\<close> does what is expected of it: it
  returns normally, the record has \<open>enabled\<close>, \<open>hasConsented\<close> and \<open>hasSeenBanner\<close> set to
  \<open>true\<close> and \<open>consentDate\<close> stamped with the current time, and that record is handed to
  \<open>localStorage.setItem\<close>.
\<close>

lemma grantConsent_on_record:
  assumes "settings w = JObj ps"
  shows "fst (grantConsent rt w) = Inr () \<and>
         (\<exists>qs. settings (snd (grantConsent rt w)) = JObj qs \<and>
           map_of qs ''enabled'' = Some (JBool True) \<and>
           map_of qs ''hasConsented'' = Some (JBool True) \<and>
           map_of qs ''hasSeenBanner'' = Some (JBool True) \<and>
           map_of qs ''consentDate'' = Some (JStr (toISOString rt (clock w))) \<and>
           calls (localStorage (snd (grantConsent rt w))) =
             calls (localStorage w) @
               [SetItem ANALYTICS_STORAGE_KEY (JSON_stringify rt (JObj qs))])"
  using assms
  by (simp add: grantConsent_def cm_defs comp_defs update_conv' Let_def
      split: prod.splits sum.splits)

text \<open>
  Likewise \<open>revokeConsent()\<close> on a loaded record: \<open>enabled\<close> is \<open>false\<close>,
  \<open>hasSeenBanner\<close> is \<open>true\<close>, \<open>consentDate\<close> is stamped, and \<open>hasConsented\<close> is what
  it was.
\<close>

lemma revokeConsent_on_record:
  assumes "settings w = JObj ps"
  shows "fst (revokeConsent rt w) = Inr () \<and>
         (\<exists>qs. settings (snd (revokeConsent rt w)) = JObj qs \<and>
           map_of qs ''enabled'' = Some (JBool False) \<and>
           map_of qs ''hasSeenBanner'' = Some (JBool True) \<and>
           map_of qs ''consentDate'' = Some (JStr (toISOString rt (clock w))) \<and>
           map_of qs ''hasConsented'' = map_of ps ''hasConsented'' \<and>
           calls (localStorage (snd (revokeConsent rt w))) =
             calls (localStorage w) @
               [SetItem ANALYTICS_STORAGE_KEY (JSON_stringify rt (JObj qs))])"
  using assms
  by (simp add: revokeConsent_def cm_defs comp_defs update_conv' Let_def
      split: prod.splits sum.splits)

text \<open>
  Claim C7 says that after \<open>grantConsent()\<close> the record has \<open>enabled\<close>, \<open>hasConsented\<close>
  and \<open>hasSeenBanner\<close> set to \<open>true\<close>, for every prior state. When no settings are loaded
  and the stored value is the JSON text \<open>null\<close>, \<open>initialize()\<close> leaves
  \<open>this.settings\<close> at \<open>null\<close>, and the assignment \<open>this.settings!.enabled = true\<close> throws
  a \<open>TypeError\<close>: \<open>grantConsent()\<close> raises, no record exists and nothing is written.
\<close>

theorem grantConsent_null_record:
  "JSON_parse demo_rt ''null'' = Some JNull \<and>
   fst (grantConsent demo_rt (with_item ANALYTICS_STORAGE_KEY ''null'' world0)) =
     Inl TypeError \<and>
   settings (snd (grantConsent demo_rt (with_item ANALYTICS_STORAGE_KEY ''null'' world0))) =
     JNull \<and>
   calls (localStorage
            (snd (grantConsent demo_rt (with_item ANALYTICS_STORAGE_KEY ''null'' world0)))) = []"
  by (simp add: grantConsent_def cm_defs comp_defs demo_defs)

text \<open>
  Claim C6 says that after \<open>revokeConsent()\<close> the record has \<open>enabled\<close> set to \<open>false\<close>
  and \<open>hasSeenBanner\<close> to \<open>true\<close>, for every prior state. When no settings are loaded and
  the stored string is malformed, \<open>initialize()\<close> returns the defaults without keeping
  them in \<open>this.settings\<close>, and the assignment \<open>this.settings!.enabled = false\<close> throws a
  \<open>TypeError\<close>: \<open>revokeConsent()\<close> raises, no record exists and nothing is written.
\<close>

theorem revokeConsent_corrupt_record:
  "JSON_parse demo_rt corrupt_stored = None \<and>
   fst (revokeConsent demo_rt (with_item ANALYTICS_STORAGE_KEY corrupt_stored world0)) =
     Inl TypeError \<and>
   settings (snd (revokeConsent demo_rt (with_item ANALYTICS_STORAGE_KEY corrupt_stored world0))) =
     JNull \<and>
   calls (localStorage
            (snd (revokeConsent demo_rt
                    (with_item ANALYTICS_STORAGE_KEY corrupt_stored world0)))) = []"
  by (simp add: revokeConsent_def cm_defs comp_defs demo_defs)

subsection \<open>deleteAllData\<close>

text \<open>
  Claim C5, as amended: after a call of \<open>deleteAllData()\<close> whose \<open>removeItem\<close> does not
  throw, the record has \<open>enabled\<close>, \<open>hasConsented\<close> and \<open>hasSeenBanner\<close> set to \<open>false\<close>,
  and its \<open>userId\<close> is the identifier generated from the next values of \<open>Math.random()\<close>.
  The record does not depend on the settings held before; the new \<open>userId\<close> is not
  compared with the earlier one.
\<close>

theorem deleteAllData_fresh_record:
  assumes "\<not> remove_throws (localStorage w)"
  shows "fst (deleteAllData rt w) = Inr () \<and>
         settings (snd (deleteAllData rt w)) =
           JObj [(''enabled'', JBool False), (''hasConsented'', JBool False),
                 (''hasSeenBanner'', JBool False),
                 (''userId'', JStr (fst (replace_xy (rng w) (rng_pos w) uuid_template))),
                 (''sessionId'', JStr (show_nat (clock w) @ ''-'' @
                    take 9 (drop 2 (toString36 rt
                      (rng w (snd (replace_xy (rng w) (rng_pos w) uuid_template)))))))]"
  using assms
  by (simp add: deleteAllData_def cm_defs comp_defs Let_def split: prod.splits sum.splits)

theorem deleteAllData_fresh_record_witness:
  "\<not> remove_throws (localStorage consented_world) \<and>
   fst (deleteAllData demo_rt consented_world) = Inr () \<and>
   get_prop (settings (snd (deleteAllData demo_rt consented_world))) ''enabled'' =
     Inr (Some (JBool False)) \<and>
   get_prop (settings (snd (deleteAllData demo_rt consented_world))) ''hasConsented'' =
     Inr (Some (JBool False)) \<and>
   get_prop (settings (snd (deleteAllData demo_rt consented_world))) ''hasSeenBanner'' =
     Inr (Some (JBool False)) \<and>
   get_prop (settings (snd (deleteAllData demo_rt consented_world))) ''userId'' =
     Inr (Some (JStr (fst (replace_xy (rng consented_world) (rng_pos consented_world)
                             uuid_template))))"
proof -
  have h: "\<not> remove_throws (localStorage consented_world)"
    by (simp add: consented_world_def grantConsent_def cm_defs comp_defs demo_defs
        default_settings_def split_def Let_def uuid_zero)
  from deleteAllData_fresh_record [OF h, of demo_rt] h show ?thesis
    by simp
qed

text \<open>
  Claim C5 as stated says that the new \<open>userId\<close> differs from the earlier one. It does not
  when \<open>Math.random()\<close> returns the values it returned when the earlier identifier was
  generated: here it returns 0 every time, the user id before the call is
  \<open>00000000-0000-4000-8000-000000000000\<close>, and so is the one after it.
\<close>

theorem deleteAllData_same_userId:
  "get_prop (settings consented_world) ''userId'' =
     Inr (Some (JStr ''00000000-0000-4000-8000-000000000000'')) \<and>
   get_prop (settings (snd (deleteAllData demo_rt consented_world))) ''userId'' =
     Inr (Some (JStr ''00000000-0000-4000-8000-000000000000''))"
  by (simp add: consented_world_def deleteAllData_def grantConsent_def cm_defs comp_defs
      demo_defs default_settings_def split_def uuid_zero)

section \<open>WindowPersistenceService: the claims\<close>

lemma isEnabled_True:
  "fst (isEnabled w) = Inr True \<longleftrightarrow>
     \<not> get_throws (localStorage w) \<and>
     (items (localStorage w) PERSISTENCE_ENABLED_KEY = None \<or>
      items (localStorage w) PERSISTENCE_ENABLED_KEY = Some ''true'')"
  by (simp add: isEnabled_def comp_defs)

lemma isEnabled_storage:
  "localStorage w' = localStorage w \<Longrightarrow> fst (isEnabled w') = fst (isEnabled w)"
  by (simp add: isEnabled_def comp_defs)

lemma isEnabled_result: "fst (isEnabled w) = Inr b \<Longrightarrow> isEnabled w = (Inr b, w)"
  by (auto simp: isEnabled_def comp_defs split: if_splits)

lemma invalid_size_numbers:
  "invalid_size rt (Some (JNum wn)) (Some (JNum hn)) \<longleftrightarrow>
     \<not> (in_range 400 4000 wn \<and> in_range 300 3000 hn)"
  by (cases wn; cases hn) (auto simp: invalid_size_def in_range_def num_gt_def)

subsection \<open>restoreWindowSize and getSavedWindowSize\<close>

text \<open>
  Claim C3: with persistence enabled and a stored WindowSize record (an object whose
  \<open>width\<close> and \<open>height\<close> are numbers), \<open>restoreWindowSize()\<close> returns \<open>false\<close> and
  issues no \<open>setSize\<close> call when the width is outside 400 to 4000 or the height outside 300
  to 3000; when both are inside it issues exactly one \<open>setSize\<close> call, with exactly these
  two values, and returns \<open>true\<close>. The platform's \<open>setSize\<close> is taken to succeed; when it
  rejects, the \<open>catch\<close> block makes the result \<open>false\<close>.
\<close>

theorem restoreWindowSize_bounds:
  assumes "fst (isEnabled w) = Inr True"
    and "items (localStorage w) WINDOW_SIZE_KEY = Some s" and "s \<noteq> []"
    and "JSON_parse rt s = Some v"
    and "get_prop v ''width'' = Inr (Some (JNum wn))"
    and "get_prop v ''height'' = Inr (Some (JNum hn))"
    and "\<not> setSize_fails w"
  shows "restoreWindowSize rt w =
     (if in_range 400 4000 wn \<and> in_range 300 3000 hn
      then (Inr True, w\<lparr>setSize_calls := setSize_calls w @ [(Some (JNum wn), Some (JNum hn))]\<rparr>)
      else (Inr False, w))"
  using assms
  by (auto simp: isEnabled_True restoreWindowSize_def isEnabled_def setSize_def parse_or_throw_def
      comp_defs invalid_size_numbers Let_def)

theorem restoreWindowSize_bounds_witness:
  "fst (restoreWindowSize demo_rt (with_item WINDOW_SIZE_KEY small_stored world0)) = Inr False \<and>
   setSize_calls (snd (restoreWindowSize demo_rt (with_item WINDOW_SIZE_KEY small_stored world0))) = [] \<and>
   fst (restoreWindowSize demo_rt (with_item WINDOW_SIZE_KEY hd_stored world0)) = Inr True \<and>
   setSize_calls (snd (restoreWindowSize demo_rt (with_item WINDOW_SIZE_KEY hd_stored world0))) =
     [(Some (JNum (Fin 1920)), Some (JNum (Fin 1080)))]"
proof -
  let ?a = "with_item WINDOW_SIZE_KEY small_stored world0"
  let ?b = "with_item WINDOW_SIZE_KEY hd_stored world0"
  have ea: "fst (isEnabled ?a) = Inr True" and eb: "fst (isEnabled ?b) = Inr True"
    by (simp_all add: isEnabled_def comp_defs demo_defs)
  have ia: "items (localStorage ?a) WINDOW_SIZE_KEY = Some small_stored"
    and ib: "items (localStorage ?b) WINDOW_SIZE_KEY = Some hd_stored"
    by (simp_all add: with_item_def)
  have na: "small_stored \<noteq> []" and nb: "hd_stored \<noteq> []"
    by (simp_all add: small_stored_def hd_stored_def)
  have pa: "JSON_parse demo_rt small_stored = Some small_record"
    and pb: "JSON_parse demo_rt hd_stored = Some hd_record"
    by (simp_all add: demo_defs)
  have wa: "get_prop small_record ''width'' = Inr (Some (JNum (Fin 200)))"
    and ha: "get_prop small_record ''height'' = Inr (Some (JNum (Fin 200)))"
    and wb: "get_prop hd_record ''width'' = Inr (Some (JNum (Fin 1920)))"
    and hb: "get_prop hd_record ''height'' = Inr (Some (JNum (Fin 1080)))"
    by (simp_all add: small_record_def hd_record_def)
  have fa: "\<not> setSize_fails ?a" and fb: "\<not> setSize_fails ?b"
    and ca: "setSize_calls ?a = []" and cb: "setSize_calls ?b = []"
    by (simp_all add: with_item_def world0_def)
  from restoreWindowSize_bounds [OF ea ia na pa wa ha fa]
       restoreWindowSize_bounds [OF eb ib nb pb wb hb fb] ca cb
  show ?thesis
    by (simp add: in_range_def)
qed

text \<open>
  When the platform rejects the \<open>setSize\<close> call, the call has been issued and the result
  is \<open>false\<close>.
\<close>

lemma restoreWindowSize_platform_failure:
  assumes "fst (isEnabled w) = Inr True"
    and "items (localStorage w) WINDOW_SIZE_KEY = Some s" and "s \<noteq> []"
    and "JSON_parse rt s = Some v"
    and "get_prop v ''width'' = Inr (Some (JNum wn))"
    and "get_prop v ''height'' = Inr (Some (JNum hn))"
    and "in_range 400 4000 wn" and "in_range 300 3000 hn"
    and "setSize_fails w"
  shows "restoreWindowSize rt w =
     (Inr False, w\<lparr>setSize_calls := setSize_calls w @ [(Some (JNum wn), Some (JNum hn))]\<rparr>)"
  using assms
  by (auto simp: isEnabled_True restoreWindowSize_def isEnabled_def setSize_def parse_or_throw_def
      comp_defs invalid_size_numbers Let_def)

text \<open>
  Claim C10: \<open>getSavedWindowSize()\<close> validates no range. With persistence enabled it
  returns whatever the stored string parses to, as it is, also a record that
  \<open>restoreWindowSize()\<close> rejects, and changes nothing.
\<close>

theorem getSavedWindowSize_unvalidated:
  assumes "fst (isEnabled w) = Inr True"
    and "items (localStorage w) WINDOW_SIZE_KEY = Some s" and "s \<noteq> []"
    and "JSON_parse rt s = Some v"
  shows "getSavedWindowSize rt w = (Inr v, w)"
  using assms
  by (auto simp: isEnabled_True getSavedWindowSize_def isEnabled_def parse_or_throw_def comp_defs)

theorem getSavedWindowSize_unvalidated_witness:
  "fst (isEnabled (with_item WINDOW_SIZE_KEY small_stored world0)) = Inr True \<and>
   JSON_parse demo_rt small_stored = Some small_record \<and>
   get_prop small_record ''width'' = Inr (Some (JNum (Fin 200))) \<and>
   fst (restoreWindowSize demo_rt (with_item WINDOW_SIZE_KEY small_stored world0)) = Inr False \<and>
   fst (getSavedWindowSize demo_rt (with_item WINDOW_SIZE_KEY small_stored world0)) =
     Inr small_record"
proof -
  let ?a = "with_item WINDOW_SIZE_KEY small_stored world0"
  have ea: "fst (isEnabled ?a) = Inr True"
    by (simp add: isEnabled_def comp_defs demo_defs)
  have ia: "items (localStorage ?a) WINDOW_SIZE_KEY = Some small_stored"
    by (simp add: with_item_def)
  have na: "small_stored \<noteq> []"
    by (simp add: small_stored_def)
  have pa: "JSON_parse demo_rt small_stored = Some small_record"
    by (simp add: demo_defs)
  have wa: "get_prop small_record ''width'' = Inr (Some (JNum (Fin 200)))"
    by (simp add: small_record_def)
  have ra: "fst (restoreWindowSize demo_rt ?a) = Inr False"
    by (simp add: restoreWindowSize_def isEnabled_def parse_or_throw_def invalid_size_def
        comp_defs demo_defs)
  from getSavedWindowSize_unvalidated [OF ea ia na pa] ea pa wa ra show ?thesis
    by simp
qed

subsection \<open>isEnabled and setEnabled\<close>

text \<open>
  Claim C8, for a storage backend that does not throw: \<open>isEnabled()\<close> returns \<open>true\<close>
  when the flag is absent from storage; \<open>setEnabled(false)\<close> removes the stored
  window-size record; and \<open>getSavedWindowSize()\<close> right after it returns \<open>null\<close>, whatever
  was stored before.
\<close>

theorem setEnabled_false_clears:
  assumes "\<not> get_throws (localStorage w)" and "\<not> set_throws (localStorage w)"
    and "\<not> remove_throws (localStorage w)"
  shows "(items (localStorage w) PERSISTENCE_ENABLED_KEY = None \<longrightarrow>
            fst (isEnabled w) = Inr True) \<and>
         fst (setEnabled False w) = Inr () \<and>
         items (localStorage (snd (setEnabled False w))) WINDOW_SIZE_KEY = None \<and>
         fst (getSavedWindowSize rt (snd (setEnabled False w))) = Inr JNull"
  using assms
  by (simp add: win_defs comp_defs Let_def String_of_bool_def WINDOW_SIZE_KEY_def
      PERSISTENCE_ENABLED_KEY_def)

theorem setEnabled_false_clears_witness:
  "items (localStorage (with_item WINDOW_SIZE_KEY hd_stored world0)) WINDOW_SIZE_KEY =
     Some hd_stored \<and>
   fst (getSavedWindowSize demo_rt (with_item WINDOW_SIZE_KEY hd_stored world0)) =
     Inr hd_record \<and>
   fst (isEnabled (with_item WINDOW_SIZE_KEY hd_stored world0)) = Inr True \<and>
   fst (setEnabled False (with_item WINDOW_SIZE_KEY hd_stored world0)) = Inr () \<and>
   items (localStorage (snd (setEnabled False (with_item WINDOW_SIZE_KEY hd_stored world0))))
     WINDOW_SIZE_KEY = None \<and>
   fst (getSavedWindowSize demo_rt
          (snd (setEnabled False (with_item WINDOW_SIZE_KEY hd_stored world0)))) = Inr JNull"
proof -
  let ?b = "with_item WINDOW_SIZE_KEY hd_stored world0"
  have g: "\<not> get_throws (localStorage ?b)" and s: "\<not> set_throws (localStorage ?b)"
    and r: "\<not> remove_throws (localStorage ?b)"
    and f: "items (localStorage ?b) PERSISTENCE_ENABLED_KEY = None"
    by (simp_all add: demo_defs)
  have ib: "items (localStorage ?b) WINDOW_SIZE_KEY = Some hd_stored"
    by (simp add: with_item_def)
  have gb: "fst (getSavedWindowSize demo_rt ?b) = Inr hd_record"
    by (simp add: getSavedWindowSize_def isEnabled_def parse_or_throw_def comp_defs demo_defs)
  from setEnabled_false_clears [OF g s r, of demo_rt] f ib gb show ?thesis
    by simp
qed

subsection \<open>The debounced save\<close>

lemma saveWindowSize_enabled:
  assumes "fst (isEnabled w) = Inr True"
  shows "snd (saveWindowSize w) =
     (case saveTimeout w of
        None \<Rightarrow> w\<lparr>pending := pending w @ [(next_handle w, clock w + 500)],
                   next_handle := Suc (next_handle w), saveTimeout := Some (next_handle w)\<rparr>
      | Some h \<Rightarrow>
          w\<lparr>pending := (if h \<noteq> 0 then filter (\<lambda>p. fst p \<noteq> h) (pending w) else pending w)
                         @ [(next_handle w, clock w + 500)],
            next_handle := Suc (next_handle w), saveTimeout := Some (next_handle w)\<rparr>)"
  using isEnabled_result [OF assms]
  by (simp add: saveWindowSize_def and_then_def setTimeout_def clearTimeout_def
      split: option.splits)

lemma save_arms:
  assumes "timer_inv w" and "fst (isEnabled w) = Inr True"
  shows "armed (clock w + 500) (snd (saveWindowSize w))"
    and "localStorage (snd (saveWindowSize w)) = localStorage w"
    and "clock (snd (saveWindowSize w)) = clock w"
    and "inner_size (snd (saveWindowSize w)) = inner_size w"
    and "innerSize_fails (snd (saveWindowSize w)) = innerSize_fails w"
  using assms(1)
  by (auto simp: saveWindowSize_enabled [OF assms(2)] timer_inv_def armed_def
      split: option.splits)

lemma armed_inv: "armed t w \<Longrightarrow> timer_inv w"
  by (auto simp: armed_def timer_inv_def)

lemma elapse_short:
  assumes "armed t w" and "clock w + d < t"
  shows "elapse rt d w = w\<lparr>clock := clock w + d\<rparr>"
  using assms by (auto simp: armed_def elapse_def)

lemma elapse_fire:
  assumes "armed t w" and "clock w \<le> t" and "t \<le> clock w + d" and "\<not> innerSize_fails w"
  shows "localStorage (elapse rt d w) =
           snd (setItem (localStorage w) WINDOW_SIZE_KEY
                  (JSON_stringify rt (window_record (fst (inner_size w)) (snd (inner_size w)) t)))"
    and "pending (elapse rt d w) = []"
    and "clock (elapse rt d w) = clock w + d"
  using assms
  by (auto simp: armed_def elapse_def fire_def save_callback_def innerSize_def comp_defs max_def
      Let_def split: prod.splits sum.splits)

lemma run_Nil: "run rt [] w = w"
  by (simp add: run_def)

lemma run_Cons: "run rt (e # es) w = run rt es (step rt e w)"
  by (simp add: run_def)

lemma run_append: "run rt (xs @ ys) w = run rt ys (run rt xs w)"
  by (simp add: run_def)

lemma burst_tail_Cons:
  "burst_tail (g # gs) =
     Elapse (fst g) # WindowResized (fst (snd g)) (snd (snd g)) # SaveWindowSize # burst_tail gs"
  by (simp add: burst_tail_def)

text \<open>
  During a burst nothing is written: after every call the timer is scheduled anew, 500
  milliseconds after that call, and the storage is as it was.
\<close>

lemma burst_tail_keeps_armed:
  assumes "armed (clock w + 500) w" and "fst (isEnabled w) = Inr True"
    and "\<forall>g \<in> set gs. fst g < 500"
  shows "armed (clock (run rt (burst_tail gs) w) + 500) (run rt (burst_tail gs) w) \<and>
         localStorage (run rt (burst_tail gs) w) = localStorage w \<and>
         clock (run rt (burst_tail gs) w) = clock w + sum_list (map fst gs) \<and>
         innerSize_fails (run rt (burst_tail gs) w) = innerSize_fails w"
  using assms
proof (induction gs arbitrary: w)
  case Nil
  then show ?case by (simp add: burst_tail_def run_Nil)
next
  case (Cons g gs)
  let ?w1 = "(elapse rt (fst g) w)\<lparr>inner_size := (fst (snd g), snd (snd g))\<rparr>"
  let ?w2 = "snd (saveWindowSize ?w1)"
  from Cons.prems have short: "clock w + fst g < clock w + 500" by simp
  have e: "elapse rt (fst g) w = w\<lparr>clock := clock w + fst g\<rparr>"
    using elapse_short [OF Cons.prems(1) short] by simp
  have inv1: "timer_inv ?w1"
    using armed_inv [OF Cons.prems(1)] by (simp add: e timer_inv_def)
  have en1: "fst (isEnabled ?w1) = Inr True"
    using Cons.prems(2) isEnabled_storage [of ?w1 w] by (simp add: e)
  have c1: "clock ?w1 = clock w + fst g" by (simp add: e)
  have a2: "armed (clock ?w2 + 500) ?w2"
    using save_arms(1) [OF inv1 en1] save_arms(3) [OF inv1 en1] by simp
  have s2: "localStorage ?w2 = localStorage w"
    using save_arms(2) [OF inv1 en1] by (simp add: e)
  have en2: "fst (isEnabled ?w2) = Inr True"
    using Cons.prems(2) isEnabled_storage [OF s2] by simp
  have c2: "clock ?w2 = clock w + fst g"
    using save_arms(3) [OF inv1 en1] c1 by simp
  have f2: "innerSize_fails ?w2 = innerSize_fails w"
    using save_arms(5) [OF inv1 en1] by (simp add: e)
  from Cons.prems(3) have rest: "\<forall>g \<in> set gs. fst g < 500" by simp
  from Cons.IH [OF a2 en2 rest] s2 c2 f2 show ?case
    by (clarsimp simp: burst_tail_Cons run_Cons add.assoc)
qed

text \<open>
  Claim C2, as amended: persistence is enabled, storage and the platform window work, and
  the timers are in order. After a burst of one or more calls of \<open>saveWindowSize()\<close>, each
  less than 500 milliseconds after the one before, and no further call, exactly one write
  to storage occurs, 500 milliseconds after the last call; it writes the window-size record
  whose width and height are the size the window has when the deferred callback runs, here
  \<open>wd\<close> by \<open>ht\<close>, which the window took after the last call. The sizes the window had at the
  calls do not matter.
\<close>

theorem debounce_single_write:
  assumes "timer_inv w" and "fst (isEnabled w) = Inr True"
    and "\<not> set_throws (localStorage w)" and "\<not> innerSize_fails w"
    and "\<forall>g \<in> set gs. fst g < 500" and "q1 < 500" and "500 \<le> q1 + q2"
  shows "calls (localStorage
            (run rt (burst gs @ [Elapse q1, WindowResized wd ht, Elapse q2]) w)) =
           calls (localStorage w) @
             [SetItem WINDOW_SIZE_KEY
                (JSON_stringify rt
                   (window_record wd ht (clock w + sum_list (map fst gs) + 500)))] \<and>
         items (localStorage
            (run rt (burst gs @ [Elapse q1, WindowResized wd ht, Elapse q2]) w)) WINDOW_SIZE_KEY =
           Some (JSON_stringify rt
                   (window_record wd ht (clock w + sum_list (map fst gs) + 500)))"
proof -
  let ?w0 = "snd (saveWindowSize w)"
  let ?w1 = "run rt (burst_tail gs) ?w0"
  let ?t = "clock w + sum_list (map fst gs) + 500"
  have a0: "armed (clock ?w0 + 500) ?w0"
    using save_arms(1) [OF assms(1,2)] save_arms(3) [OF assms(1,2)] by simp
  have s0: "localStorage ?w0 = localStorage w"
    by (rule save_arms(2) [OF assms(1,2)])
  have en0: "fst (isEnabled ?w0) = Inr True"
    using assms(2) isEnabled_storage [OF s0] by simp
  from burst_tail_keeps_armed [OF a0 en0 assms(5), where rt = rt]
  have a1: "armed (clock ?w1 + 500) ?w1"
    and s1: "localStorage ?w1 = localStorage w"
    and c1: "clock ?w1 = clock w + sum_list (map fst gs)"
    and f1: "\<not> innerSize_fails ?w1"
    using s0 save_arms(3) [OF assms(1,2)] save_arms(5) [OF assms(1,2)] assms(4) by auto
  let ?w2 = "(elapse rt q1 ?w1)\<lparr>inner_size := (wd, ht)\<rparr>"
  have e1: "elapse rt q1 ?w1 = ?w1\<lparr>clock := clock ?w1 + q1\<rparr>"
    using elapse_short [OF a1] assms(6) by simp
  have a2: "armed ?t ?w2"
    using a1 c1 by (simp add: e1 armed_def)
  have "clock ?w2 \<le> ?t" and "?t \<le> clock ?w2 + q2" and "\<not> innerSize_fails ?w2"
    using assms(6,7) c1 f1 by (simp_all add: e1)
  from elapse_fire(1) [OF a2 this, of rt]
  have "localStorage (elapse rt q2 ?w2) =
          snd (setItem (localStorage w) WINDOW_SIZE_KEY
                 (JSON_stringify rt (window_record wd ht ?t)))"
    using s1 by (simp add: e1)
  moreover have "run rt (burst gs @ [Elapse q1, WindowResized wd ht, Elapse q2]) w =
                 elapse rt q2 ?w2"
    by (simp add: burst_def run_Cons run_append run_Nil)
  ultimately show ?thesis
    using assms(3) by (simp add: setItem_def Let_def)
qed

theorem debounce_single_write_witness:
  "timer_inv world0 \<and> fst (isEnabled world0) = Inr True \<and>
   calls (localStorage
      (run demo_rt (burst [(100, 900, 650)] @ [Elapse 100, WindowResized 1000 700, Elapse 400])
         world0)) =
     [SetItem WINDOW_SIZE_KEY (JSON_stringify demo_rt (window_record 1000 700 1700000000600))] \<and>
   items (localStorage
      (run demo_rt (burst [(100, 900, 650)] @ [Elapse 100, WindowResized 1000 700, Elapse 400])
         world0)) WINDOW_SIZE_KEY =
     Some (JSON_stringify demo_rt (window_record 1000 700 1700000000600))"
proof -
  have i: "timer_inv world0"
    by (simp add: timer_inv_def world0_def)
  have e: "fst (isEnabled world0) = Inr True"
    by (simp add: isEnabled_def comp_defs world0_def)
  have s: "\<not> set_throws (localStorage world0)" and f: "\<not> innerSize_fails world0"
    and c: "calls (localStorage world0) = []" and t: "clock world0 = 1700000000000"
    by (simp_all add: world0_def)
  have g: "\<forall>g \<in> set [(100, 900, 650)]. fst g < (500::nat)"
    by simp
  have q1: "(100::nat) < 500" and q2: "(500::nat) \<le> 100 + 400"
    by simp_all
  from debounce_single_write [OF i e s f g q1 q2, of demo_rt 1000 700] i e c t
  show ?thesis
    by simp
qed

text \<open>
  Claim C2 as stated says that the written size is the size the window has at the time of
  the last call. Here the window is 800 by 600 at both calls and becomes 1000 by 700 before
  the timer fires: the only write holds 1000 by 700.
\<close>

theorem debounce_writes_later_size:
  \<open>inner_size (run demo_rt [SaveWindowSize, Elapse 100, SaveWindowSize] world0) = (800, 600) \<and>
   calls (localStorage
      (run demo_rt [SaveWindowSize, Elapse 100, SaveWindowSize, Elapse 100,
                    WindowResized 1000 700, Elapse 400] world0)) =
     [SetItem ''claudia_window_size''
        ''{"width":1000,"height":700,"timestamp":1700000000600}'']\<close>
  by (simp add: run_def elapse_def fire_def win_defs comp_defs world0_def Let_def
      WINDOW_SIZE_KEY_def PERSISTENCE_ENABLED_KEY_def
      demo_rt_def demo_stringify_def window_record_def radix_eval)

text \<open>
  Claim C9: \<open>setEnabled(false)\<close> does not cancel a save that is already scheduled. After
  \<open>saveWindowSize()\<close> with persistence enabled and \<open>setEnabled(false)\<close> before the 500
  milliseconds are over, the stored size is cleared and persistence is disabled; when the
  timer fires the callback writes the window-size record all the same, so that a stored
  record exists while persistence is disabled.
\<close>

theorem pending_save_survives_disable:
  assumes "timer_inv w" and "fst (isEnabled w) = Inr True"
    and "\<not> set_throws (localStorage w)" and "\<not> remove_throws (localStorage w)"
    and "\<not> innerSize_fails w" and "d < 500" and "500 \<le> d + q"
  shows "items (localStorage (run rt [SaveWindowSize, Elapse d, SetEnabled False] w))
           WINDOW_SIZE_KEY = None \<and>
         fst (isEnabled (run rt [SaveWindowSize, Elapse d, SetEnabled False] w)) = Inr False \<and>
         items (localStorage (run rt [SaveWindowSize, Elapse d, SetEnabled False, Elapse q] w))
           WINDOW_SIZE_KEY =
           Some (JSON_stringify rt
                   (window_record (fst (inner_size w)) (snd (inner_size w)) (clock w + 500))) \<and>
         fst (isEnabled (run rt [SaveWindowSize, Elapse d, SetEnabled False, Elapse q] w)) =
           Inr False"
proof -
  let ?w0 = "snd (saveWindowSize w)"
  have a0: "armed (clock w + 500) ?w0"
    and s0: "localStorage ?w0 = localStorage w"
    and c0: "clock ?w0 = clock w"
    and i0: "inner_size ?w0 = inner_size w"
    and f0: "innerSize_fails ?w0 = innerSize_fails w"
    using save_arms [OF assms(1,2)] by simp_all
  let ?w1 = "?w0\<lparr>clock := clock w + d\<rparr>"
  have e1: "elapse rt d ?w0 = ?w1"
    using elapse_short [OF a0, of d rt] assms(6) c0 by simp
  let ?w2 = "snd (setEnabled False ?w1)"
  have g: "\<not> get_throws (localStorage w)"
    using assms(2) by (simp add: isEnabled_True)
  have w2: "?w2 = ?w1\<lparr>localStorage :=
      snd (removeItem (snd (setItem (localStorage w) PERSISTENCE_ENABLED_KEY ''false''))
             WINDOW_SIZE_KEY)\<rparr>"
    using assms(3,4) s0
    by (simp add: setEnabled_def clearWindowSize_def String_of_bool_def comp_defs Let_def)
  have a2: "armed (clock w + 500) ?w2"
    using a0 by (simp add: w2 armed_def)
  have k: "PERSISTENCE_ENABLED_KEY \<noteq> WINDOW_SIZE_KEY"
    by (simp add: PERSISTENCE_ENABLED_KEY_def WINDOW_SIZE_KEY_def)
  have it2: "items (localStorage ?w2) WINDOW_SIZE_KEY = None"
    and fl2: "items (localStorage ?w2) PERSISTENCE_ENABLED_KEY = Some ''false''"
    and g2: "\<not> get_throws (localStorage ?w2)" and st2: "\<not> set_throws (localStorage ?w2)"
    using assms(3,4) g k by (simp_all add: w2 setItem_def removeItem_def Let_def)
  have en2: "fst (isEnabled ?w2) = Inr False"
    using fl2 g2 by (simp add: isEnabled_def comp_defs)
  have "clock ?w2 \<le> clock w + 500" and "clock w + 500 \<le> clock ?w2 + q"
    and "\<not> innerSize_fails ?w2"
    using assms(5,6,7) f0 by (simp_all add: w2)
  from elapse_fire(1) [OF a2 this, of rt]
  have l3: "localStorage (elapse rt q ?w2) =
          snd (setItem (localStorage ?w2) WINDOW_SIZE_KEY
                 (JSON_stringify rt
                    (window_record (fst (inner_size w)) (snd (inner_size w)) (clock w + 500))))"
    using i0 by (simp add: w2)
  have it3: "items (localStorage (elapse rt q ?w2)) WINDOW_SIZE_KEY =
               Some (JSON_stringify rt
                    (window_record (fst (inner_size w)) (snd (inner_size w)) (clock w + 500)))"
    and fl3: "items (localStorage (elapse rt q ?w2)) PERSISTENCE_ENABLED_KEY = Some ''false''"
    and g3: "\<not> get_throws (localStorage (elapse rt q ?w2))"
    using st2 fl2 g2 k by (simp_all add: l3 setItem_def Let_def)
  have en3: "fst (isEnabled (elapse rt q ?w2)) = Inr False"
    using fl3 g3 by (simp add: isEnabled_def comp_defs)
  have r2: "run rt [SaveWindowSize, Elapse d, SetEnabled False] w = ?w2"
    by (simp add: run_Cons run_Nil e1)
  have r3: "run rt [SaveWindowSize, Elapse d, SetEnabled False, Elapse q] w = elapse rt q ?w2"
    by (simp add: run_Cons run_Nil e1)
  show ?thesis
    unfolding r2 r3 using it2 en2 it3 en3 by simp
qed

theorem pending_save_survives_disable_witness:
  "timer_inv world0 \<and> fst (isEnabled world0) = Inr True \<and>
   items (localStorage (run demo_rt [SaveWindowSize, Elapse 100, SetEnabled False] world0))
     WINDOW_SIZE_KEY = None \<and>
   fst (isEnabled (run demo_rt [SaveWindowSize, Elapse 100, SetEnabled False] world0)) =
     Inr False \<and>
   items (localStorage
      (run demo_rt [SaveWindowSize, Elapse 100, SetEnabled False, Elapse 400] world0))
     WINDOW_SIZE_KEY =
     Some (JSON_stringify demo_rt (window_record 800 600 1700000000500)) \<and>
   fst (isEnabled
      (run demo_rt [SaveWindowSize, Elapse 100, SetEnabled False, Elapse 400] world0)) =
     Inr False"
proof -
  have i: "timer_inv world0"
    by (simp add: timer_inv_def world0_def)
  have e: "fst (isEnabled world0) = Inr True"
    by (simp add: isEnabled_def comp_defs world0_def)
  have s: "\<not> set_throws (localStorage world0)" and r: "\<not> remove_throws (localStorage world0)"
    and f: "\<not> innerSize_fails world0"
    and z: "inner_size world0 = (800, 600)" and t: "clock world0 = 1700000000000"
    by (simp_all add: world0_def)
  have q1: "(100::nat) < 500" and q2: "(500::nat) \<le> 100 + 400"
    by simp_all
  from pending_save_survives_disable [OF i e s r f q1 q2, of demo_rt] i e z t
  show ?thesis
    by simp
qed

end
